theory Spec2Isabelle
  imports Complex_Main
begin

section \<open>Data model of the order page (src/pages/Order.tsx)\<close>

text \<open>
  A JavaScript price as the cart arithmetic sees it: a finite number, \<open>NaN\<close>, or a
  missing (\<open>undefined\<close>) field. Finite amounts are exact rationals: the rounding of
  IEEE doubles and the infinite values of the type \<open>number\<close> are not part of this
  model, so a total below says which lines enter it, not which double the page shows.
\<close>

datatype price = Amount rat | NotANumber | Missing

text \<open>
  \<open>MenuItem\<close> (types/menu), restricted to the fields the order page reads. The fields
  \<open>id\<close>, \<open>name\<close> and \<open>price\<close> carry a prefix, since a cart line has fields of the
  same names.
\<close>

record MenuItem =
  mi_id :: string
  mi_name :: string
  mi_price :: price
  category :: string
  madeToOrder :: bool
  stock :: int

text \<open>\<open>interface CartItem { id; name; price; quantity }\<close>\<close>

record CartItem =
  ci_id :: string
  ci_name :: string
  ci_price :: price
  quantity :: int

text \<open>The toasts the page raises.\<close>

datatype toast =
  OutOfStock | StockLimitReached | ItemAddedToCart | OrderReceived | SubmitError

text \<open>A \<open>TypeError\<close> thrown by reading a property of \<open>undefined\<close>.\<close>

datatype error = TypeError

section \<open>formatOrderDetails\<close>

text \<open>\<open>Number(item.price || 0)\<close>: \<open>undefined\<close>, \<open>NaN\<close> and \<open>0\<close> are falsy and become 0.\<close>

fun priceOrZero :: "price \<Rightarrow> rat" where
  "priceOrZero (Amount r) = r"
| "priceOrZero NotANumber = 0"
| "priceOrZero Missing = 0"

text \<open>\<open>Number(item.price || 0) * item.quantity\<close>\<close>

definition lineTotal :: "CartItem \<Rightarrow> rat" where
  "lineTotal item = priceOrZero (ci_price item) * of_int (quantity item)"

text \<open>\<open>menuItems.find(mi => mi.id === id)\<close>\<close>

definition findMenuItem :: "MenuItem list \<Rightarrow> string \<Rightarrow> MenuItem option" where
  "findMenuItem menuItems i = find (\<lambda>mi. mi_id mi = i) menuItems"

text \<open>The filter predicates: \<open>menuItem && !menuItem.madeToOrder\<close> and
  \<open>menuItem && menuItem.madeToOrder\<close>.\<close>

definition isInStockLine :: "MenuItem list \<Rightarrow> CartItem \<Rightarrow> bool" where
  "isInStockLine menuItems item =
     (case findMenuItem menuItems (ci_id item) of
        None \<Rightarrow> False
      | Some menuItem \<Rightarrow> \<not> madeToOrder menuItem)"

definition isMadeToOrderLine :: "MenuItem list \<Rightarrow> CartItem \<Rightarrow> bool" where
  "isMadeToOrderLine menuItems item =
     (case findMenuItem menuItems (ci_id item) of
        None \<Rightarrow> False
      | Some menuItem \<Rightarrow> madeToOrder menuItem)"

record OrderDetails =
  inStockItems :: "CartItem list"
  madeToOrderItems :: "CartItem list"
  cartTotal :: rat

text \<open>\<open>cart.reduce((total, item) => total + Number(item.price || 0) * item.quantity, 0)\<close>
  is a left fold from 0.\<close>

definition formatOrderDetails :: "CartItem list \<Rightarrow> MenuItem list \<Rightarrow> OrderDetails" where
  "formatOrderDetails cart menuItems =
     \<lparr> inStockItems = filter (isInStockLine menuItems) cart,
       madeToOrderItems = filter (isMadeToOrderLine menuItems) cart,
       cartTotal = foldl (\<lambda>total item. total + lineTotal item) 0 cart \<rparr>"

section \<open>Cart operations\<close>

text \<open>\<open>addToCart(item)\<close>: the new cart and the toast shown.\<close>

definition addToCart :: "CartItem list \<Rightarrow> MenuItem \<Rightarrow> CartItem list \<times> toast" where
  "addToCart cart item =
     (let existingItem = find (\<lambda>cartItem. ci_id cartItem = mi_id item) cart in
      if \<not> madeToOrder item \<and> stock item \<le> 0 then (cart, OutOfStock)
      else case existingItem of
        Some e \<Rightarrow>
          if \<not> madeToOrder item \<and> quantity e \<ge> stock item then (cart, StockLimitReached)
          else (map (\<lambda>cartItem.
                       if ci_id cartItem = mi_id item
                       then cartItem\<lparr>quantity := quantity cartItem + 1\<rparr>
                       else cartItem) cart,
                ItemAddedToCart)
      | None \<Rightarrow>
          (cart @ [\<lparr> ci_id = mi_id item, ci_name = mi_name item,
                     ci_price = mi_price item, quantity = 1 \<rparr>],
           ItemAddedToCart))"

text \<open>\<open>removeFromCart(id)\<close>\<close>

definition removeFromCart :: "CartItem list \<Rightarrow> string \<Rightarrow> CartItem list" where
  "removeFromCart cart i = filter (\<lambda>item. ci_id item \<noteq> i) cart"

text \<open>
  \<open>updateQuantity(id, quantity)\<close>. When no menu item has the id,
  \<open>!menuItem?.madeToOrder\<close> is true and \<open>menuItem!.stock\<close> reads a property of
  \<open>undefined\<close>: the handler throws and the cart keeps its value.
\<close>

definition updateQuantity ::
  "MenuItem list \<Rightarrow> CartItem list \<Rightarrow> string \<Rightarrow> int \<Rightarrow> error + (CartItem list \<times> toast option)"
where
  "updateQuantity menuItems cart i q =
     (if q < 1 then Inr (removeFromCart cart i, None)
      else case findMenuItem menuItems i of
        None \<Rightarrow> Inl TypeError
      | Some menuItem \<Rightarrow>
          if \<not> madeToOrder menuItem \<and> q > stock menuItem
          then Inr (cart, Some StockLimitReached)
          else Inr (map (\<lambda>item. if ci_id item = i then item\<lparr>quantity := q\<rparr> else item) cart,
                    None))"

text \<open>
  The cart lines the page renders with quantity buttons: \<open>inStockItems.map(...)\<close>
  followed by \<open>madeToOrderItems.map(...)\<close>. The buttons of a line are the only callers
  of \<open>updateQuantity\<close>, with the id of that line.
\<close>

definition renderedLines :: "CartItem list \<Rightarrow> MenuItem list \<Rightarrow> CartItem list" where
  "renderedLines cart menuItems =
     inStockItems (formatOrderDetails cart menuItems)
       @ madeToOrderItems (formatOrderDetails cart menuItems)"

text \<open>
  The effect that reads the \<open>item\<close> search parameter. \<open>if (itemId)\<close> skips a missing
  and an empty parameter; \<open>cart.some(...)\<close> is \<open>list_ex\<close>.
\<close>

definition urlItemEffect ::
  "MenuItem list \<Rightarrow> CartItem list \<Rightarrow> string option \<Rightarrow> CartItem list"
where
  "urlItemEffect menuItems cart param =
     (case param of
        None \<Rightarrow> cart
      | Some itemId \<Rightarrow>
          if itemId = [] then cart
          else (case findMenuItem menuItems itemId of
            None \<Rightarrow> cart
          | Some menuItem \<Rightarrow>
              if \<not> list_ex (\<lambda>item. ci_id item = itemId) cart
              then cart @ [\<lparr> ci_id = mi_id menuItem, ci_name = mi_name menuItem,
                              ci_price = mi_price menuItem, quantity = 1 \<rparr>]
              else cart))"

text \<open>The quantity of an item in the cart, over all lines that reference it, and the
  stock bound of the data model: no in-stock menu item is in the cart beyond its stock.\<close>

definition cartQuantity :: "CartItem list \<Rightarrow> string \<Rightarrow> int" where
  "cartQuantity cart i = sum_list (map quantity (filter (\<lambda>item. ci_id item = i) cart))"

definition stockInvariant :: "MenuItem list \<Rightarrow> CartItem list \<Rightarrow> bool" where
  "stockInvariant menuItems cart =
     list_all (\<lambda>mi. madeToOrder mi \<or> cartQuantity cart (mi_id mi) \<le> stock mi) menuItems"

text \<open>What the cart operations maintain: no two lines share an id, every quantity is at
  least 1, and the stock bound holds.\<close>

definition cartInvariant :: "MenuItem list \<Rightarrow> CartItem list \<Rightarrow> bool" where
  "cartInvariant menuItems xs =
     (distinct (map ci_id xs) \<and> list_all (\<lambda>item. 1 \<le> quantity item) xs
      \<and> stockInvariant menuItems xs)"

section \<open>Pickup dates\<close>

text \<open>
  A calendar date is the number of its local day, counted from 1970-01-01; the calendar
  hands the page dates at local midnight, so comparing two dates compares their day
  numbers, and \<open>setDate(getDate() + n)\<close> adds \<open>n\<close> to the day number. \<open>new Date()\<close>
  is read through its local day and \<open>getHours()\<close>. Daylight-saving shifts are outside
  the model.
\<close>

record Clock =
  nowDate :: int
  nowHours :: int

text \<open>\<open>Date.getDay()\<close>: 0 is Sunday, 6 is Saturday; 1970-01-01 was a Thursday.\<close>

definition getDay :: "int \<Rightarrow> int" where
  "getDay date = (date + 4) mod 7"

text \<open>The page's \<open>getAvailablePickupDates(date)\<close>; \<open>hasMadeToOrderItems\<close> is read
  from the enclosing component.\<close>

definition getAvailablePickupDates :: "bool \<Rightarrow> Clock \<Rightarrow> int \<Rightarrow> bool" where
  "getAvailablePickupDates hasMadeToOrderItems now date =
     (let today = nowDate now in
      if hasMadeToOrderItems then
        if getDay date \<noteq> 6 then False
        else
          let currentDay = getDay (nowDate now);
              currentHour = nowHours now;
              daysUntilNextSaturday = (6 - currentDay + 7) mod 7;
              upcomingSaturday = today + daysUntilNextSaturday;
              saturdayAfterNext = upcomingSaturday + 7
          in if currentDay > 3 \<or> (currentDay = 3 \<and> currentHour \<ge> 18)
             then date \<ge> saturdayAfterNext
             else date \<ge> upcomingSaturday
      else
        let isWeekday = (getDay date \<ge> 1 \<and> getDay date \<le> 5);
            minPickupDate = today + 1
        in isWeekday \<and> date \<ge> minPickupDate)"

text \<open>The props of the two \<open>Calendar\<close> elements: \<open>fromDate\<close> (its day) and
  \<open>disabled\<close>. The page always passes a \<open>Date\<close>, so the \<open>instanceof\<close> test of
  \<open>disabled\<close> never fires.\<close>

definition inStockFromDate :: "Clock \<Rightarrow> int" where
  "inStockFromDate now = nowDate now + 1"

definition inStockDisabled :: "int \<Rightarrow> bool" where
  "inStockDisabled date = (getDay date = 0 \<or> getDay date = 6)"

definition madeToOrderFromDate :: "Clock \<Rightarrow> int" where
  "madeToOrderFromDate now =
     (let today = nowDate now;
          currentDay = getDay (nowDate now);
          daysUntilNextSaturday = (6 - currentDay + 7) mod 7;
          upcomingSaturday = today + daysUntilNextSaturday
      in upcomingSaturday)"

definition madeToOrderDisabled :: "int \<Rightarrow> bool" where
  "madeToOrderDisabled date = (getDay date \<noteq> 6)"

text \<open>
  Modelled from the spec: the \<open>Calendar\<close> component (components/ui/calendar, a day
  picker) is not among the sources. A day can be selected when it is not before the day of
  \<open>fromDate\<close> ("the minimum selectable date") and \<open>disabled\<close> does not hold of it.
\<close>

definition calendarSelectable :: "int \<Rightarrow> (int \<Rightarrow> bool) \<Rightarrow> int \<Rightarrow> bool" where
  "calendarSelectable fromDate disabled date = (fromDate \<le> date \<and> \<not> disabled date)"

definition inStockSelectable :: "Clock \<Rightarrow> int \<Rightarrow> bool" where
  "inStockSelectable now date = calendarSelectable (inStockFromDate now) inStockDisabled date"

definition madeToOrderSelectable :: "Clock \<Rightarrow> int \<Rightarrow> bool" where
  "madeToOrderSelectable now date =
     calendarSelectable (madeToOrderFromDate now) madeToOrderDisabled date"

section \<open>Pickup times\<close>

definition PICKUP_TIMES :: "string list" where
  "PICKUP_TIMES =
     [''9:00 AM'', ''9:30 AM'', ''10:00 AM'', ''10:30 AM'',
      ''11:00 AM'', ''11:30 AM'', ''12:00 PM'', ''12:30 PM'',
      ''1:00 PM'', ''1:30 PM'', ''2:00 PM'', ''2:30 PM'',
      ''3:00 PM'', ''3:30 PM'', ''4:00 PM'', ''4:30 PM'',
      ''5:00 PM'']"

definition getAvailablePickupTimes :: "bool \<Rightarrow> string list" where
  "getAvailablePickupTimes hasMadeToOrderItems =
     (if hasMadeToOrderItems then
        [''9:00 AM'', ''9:30 AM'', ''10:00 AM'', ''10:30 AM'',
         ''11:00 AM'', ''11:30 AM'', ''12:00 PM'', ''12:30 PM'',
         ''1:00 PM'', ''1:30 PM'', ''2:00 PM'', ''2:30 PM'',
         ''3:00 PM'', ''3:30 PM'', ''4:00 PM'', ''4:30 PM'',
         ''5:00 PM'', ''5:30 PM'', ''6:00 PM'']
      else
        [''12:00 PM'', ''12:30 PM'', ''1:00 PM'', ''1:30 PM'',
         ''2:00 PM'', ''2:30 PM'', ''3:00 PM'', ''3:30 PM'',
         ''4:00 PM'', ''4:30 PM'', ''5:00 PM'', ''5:30 PM'',
         ''6:00 PM''])"

text \<open>The \<open>SelectItem\<close>s of the two pickup-time selectors: both are
  \<open>PICKUP_TIMES.map(...)\<close>.\<close>

definition inStockPickupTimeOptions :: "string list" where
  "inStockPickupTimeOptions = PICKUP_TIMES"

definition madeToOrderPickupTimeOptions :: "string list" where
  "madeToOrderPickupTimeOptions = PICKUP_TIMES"

text \<open>
  The specification's words, for comparison: a half-hour grid between two times of day
  (in minutes after midnight, both ends included), each time written as the page writes
  it (12-hour clock, \<open>h:mm AM\<close> or \<open>h:mm PM\<close>).
\<close>

definition showDigit :: "nat \<Rightarrow> char" where
  "showDigit n = ''0123456789'' ! (n mod 10)"

definition showHour :: "nat \<Rightarrow> string" where
  "showHour h = (if h < 10 then [showDigit h] else [showDigit (h div 10), showDigit h])"

definition formatTime12 :: "nat \<Rightarrow> string" where
  "formatTime12 m =
     (let h = m div 60; mi = m mod 60;
          h12 = (if h mod 12 = 0 then 12 else h mod 12)
      in showHour h12 @ '':'' @ [showDigit (mi div 10), showDigit mi]
           @ (if h < 12 then '' AM'' else '' PM''))"

definition halfHourGrid :: "nat \<Rightarrow> nat \<Rightarrow> string list" where
  "halfHourGrid lo hi =
     (if hi < lo then []
      else map (\<lambda>k. formatTime12 (lo + 30 * k)) [0 ..< (hi - lo) div 30 + 1])"

section \<open>The order form and its validation schema\<close>

text \<open>\<open>OrderFormValues\<close>; an unset field (\<open>undefined\<close>) is \<open>None\<close>. The contact
  fields carry a prefix.\<close>

record OrderFormValues =
  fv_name :: string
  fv_email :: string
  fv_phone :: string
  inStockPickupDate :: "int option"
  inStockPickupTime :: "string option"
  madeToOrderPickupDate :: "int option"
  madeToOrderPickupTime :: "string option"
  specialInstructions :: "string option"

definition defaultValues :: OrderFormValues where
  "defaultValues =
     \<lparr> fv_name = [], fv_email = [], fv_phone = [],
       inStockPickupDate = None, inStockPickupTime = None,
       madeToOrderPickupDate = None, madeToOrderPickupTime = None,
       specialInstructions = Some [] \<rparr>"

text \<open>\<open>String.prototype.trim\<close> on the white space below U+0100: tab, line feed,
  vertical tab, form feed, carriage return, space and the no-break space. A \<open>char\<close> is
  one code unit below \<open>0x100\<close>; the white space beyond it is outside the model.\<close>

definition isSpace :: "char \<Rightarrow> bool" where
  "isSpace c =
     (c \<in> set [CHR '' '', CHR 0x09, CHR 0x0A, CHR 0x0B, CHR 0x0C, CHR 0x0D, CHR 0xA0])"

definition trim :: "string \<Rightarrow> string" where
  "trim s = rev (dropWhile isSpace (rev (dropWhile isSpace s)))"

text \<open>The regular expression \<open>/^\d{3}-\d{3}-\d{4}$/\<close>, read left to right.\<close>

definition isDigit :: "char \<Rightarrow> bool" where
  "isDigit c = (c \<in> set ''0123456789'')"

fun matchDigits :: "nat \<Rightarrow> string \<Rightarrow> string option" where
  "matchDigits 0 s = Some s"
| "matchDigits (Suc n) [] = None"
| "matchDigits (Suc n) (c # s) = (if isDigit c then matchDigits n s else None)"

fun matchDash :: "string \<Rightarrow> string option" where
  "matchDash [] = None"
| "matchDash (c # s) = (if c = CHR ''-'' then Some s else None)"

definition phonePattern :: "string \<Rightarrow> bool" where
  "phonePattern s =
     (case Option.bind (Option.bind (Option.bind (Option.bind (matchDigits 3 s) matchDash)
              (matchDigits 3)) matchDash) (matchDigits 4) of
        Some rest \<Rightarrow> rest = []
      | None \<Rightarrow> False)"

text \<open>
  \<open>orderFormSchema\<close>. The check behind \<open>z.string().email()\<close> belongs to the zod
  library and is the parameter \<open>emailOk\<close>. \<open>z.date\<close> and \<open>z.string\<close> with a
  \<open>required_error\<close> reject \<open>undefined\<close>.
\<close>

definition orderFormSchema :: "(string \<Rightarrow> bool) \<Rightarrow> OrderFormValues \<Rightarrow> bool" where
  "orderFormSchema emailOk data =
     ((length (fv_name data) \<ge> 2 \<and> length (trim (fv_name data)) > 0)
      \<and> (emailOk (fv_email data) \<and> length (trim (fv_email data)) > 0)
      \<and> (length (fv_phone data) \<ge> 12 \<and> length (fv_phone data) \<le> 12
           \<and> length (trim (fv_phone data)) > 0 \<and> phonePattern (fv_phone data))
      \<and> inStockPickupDate data \<noteq> None
      \<and> inStockPickupTime data \<noteq> None
      \<and> madeToOrderPickupDate data \<noteq> None
      \<and> madeToOrderPickupTime data \<noteq> None)"

text \<open>JavaScript falsiness of the pickup fields: \<open>!data.inStockPickupDate\<close> holds of
  \<open>undefined\<close>, \<open>!data.inStockPickupTime\<close> of \<open>undefined\<close> and of the empty string.\<close>

definition falsyDate :: "int option \<Rightarrow> bool" where
  "falsyDate d = (d = None)"

definition falsyString :: "string option \<Rightarrow> bool" where
  "falsyString t = (t = None \<or> t = Some [])"

text \<open>The refinement that \<open>createValidationSchema\<close> adds, and the schema it returns.\<close>

definition pickupRefinement :: "CartItem list \<Rightarrow> MenuItem list \<Rightarrow> OrderFormValues \<Rightarrow> bool" where
  "pickupRefinement cart menuItems data =
     (if cart = [] then False
      else if inStockItems (formatOrderDetails cart menuItems) \<noteq> []
              \<and> (falsyDate (inStockPickupDate data) \<or> falsyString (inStockPickupTime data))
      then False
      else if madeToOrderItems (formatOrderDetails cart menuItems) \<noteq> []
              \<and> (falsyDate (madeToOrderPickupDate data)
                   \<or> falsyString (madeToOrderPickupTime data))
      then False
      else True)"

definition createValidationSchema ::
  "(string \<Rightarrow> bool) \<Rightarrow> CartItem list \<Rightarrow> MenuItem list \<Rightarrow> OrderFormValues \<Rightarrow> bool"
where
  "createValidationSchema emailOk cart menuItems data =
     (orderFormSchema emailOk data \<and> pickupRefinement cart menuItems data)"

section \<open>Submission\<close>

text \<open>
  The template parameters of a notification, without the constant texts. The itemized
  sections are kept as the lists of cart lines they are printed from, a pickup date as the
  date it is formatted from, and an absent value (printed \<open>Not applicable\<close>, \<open>None\<close>)
  as \<open>None\<close>.
\<close>

record TemplateParams =
  to_email :: string
  customer_name :: string
  customer_email :: string
  customer_phone :: string
  in_stock_pickup_date :: "int option"
  in_stock_pickup_time :: "string option"
  made_to_order_pickup_date :: "int option"
  made_to_order_pickup_time :: "string option"
  special_instructions :: "string option"
  in_stock_items :: "CartItem list"
  made_to_order_items :: "CartItem list"
  total_amount :: rat

text \<open>The order handed to \<open>addOrder\<close>.\<close>

record Order =
  customerName :: string
  customerEmail :: string
  customerPhone :: string
  orderInStockItems :: "CartItem list"
  orderMadeToOrderItems :: "CartItem list"
  orderInStockPickupDate :: "int option"
  orderInStockPickupTime :: "string option"
  orderMadeToOrderPickupDate :: "int option"
  orderMadeToOrderPickupTime :: "string option"
  total :: rat
  orderSpecialInstructions :: "string option"
  paymentMethod :: string
  orderType :: string
  estimatedCompletionTime :: "int option"

definition BAKERY_EMAIL :: string where
  "BAKERY_EMAIL = ''myjilicioustreats@gmail.com''"

text \<open>The calls the page makes to its collaborators, in the order it makes them.\<close>

datatype effect = SendEmail TemplateParams | AddOrder Order

text \<open>How the collaborators answer one submission: whether the send to the customer, the
  send to the bakery and the order-log write resolve or reject.\<close>

record Outcomes =
  customerSendOk :: bool
  bakerySendOk :: bool
  addOrderOk :: bool

text \<open>The state of the page, with the order list of the order context.\<close>

record PageState =
  cart :: "CartItem list"
  formValues :: OrderFormValues
  isSubmitting :: bool
  orders :: "Order list"

record SubmitResult =
  state :: PageState
  effects :: "effect list"
  shown :: "toast option"

text \<open>\<open>x || 'Not applicable'\<close> on an optional string: the empty string is falsy too.\<close>

definition orAbsent :: "string option \<Rightarrow> string option" where
  "orAbsent t = (if falsyString t then None else t)"

definition templateParams :: "OrderDetails \<Rightarrow> OrderFormValues \<Rightarrow> TemplateParams" where
  "templateParams details data =
     \<lparr> to_email = fv_email data,
       customer_name = fv_name data,
       customer_email = fv_email data,
       customer_phone = fv_phone data,
       in_stock_pickup_date = inStockPickupDate data,
       in_stock_pickup_time = orAbsent (inStockPickupTime data),
       made_to_order_pickup_date = madeToOrderPickupDate data,
       made_to_order_pickup_time = orAbsent (madeToOrderPickupTime data),
       special_instructions = orAbsent (specialInstructions data),
       in_stock_items = inStockItems details,
       made_to_order_items = madeToOrderItems details,
       total_amount = cartTotal details \<rparr>"

definition newOrder :: "OrderDetails \<Rightarrow> OrderFormValues \<Rightarrow> Order" where
  "newOrder details data =
     \<lparr> customerName = fv_name data,
       customerEmail = fv_email data,
       customerPhone = fv_phone data,
       orderInStockItems = inStockItems details,
       orderMadeToOrderItems = madeToOrderItems details,
       orderInStockPickupDate = inStockPickupDate data,
       orderInStockPickupTime = inStockPickupTime data,
       orderMadeToOrderPickupDate = madeToOrderPickupDate data,
       orderMadeToOrderPickupTime = madeToOrderPickupTime data,
       total = cartTotal details,
       orderSpecialInstructions = specialInstructions data,
       paymentMethod = ''zelle'',
       orderType = ''pickup'',
       estimatedCompletionTime = inStockPickupDate data \<rparr>"

text \<open>
  Modelled from the spec: \<open>addOrder\<close> of the order context is not among the sources;
  it is the order log's \<open>record(orderSnapshot) -> success/failure\<close>. A write that
  succeeds appends the order to the list, one that fails leaves the list as it was.
\<close>

definition addOrder :: "bool \<Rightarrow> Order \<Rightarrow> Order list \<Rightarrow> Order list option" where
  "addOrder ok order orderLog = (if ok then Some (orderLog @ [order]) else None)"

text \<open>
  \<open>onSubmit(data)\<close>. Both sends are started before \<open>Promise.all\<close> is awaited; a
  rejection of either, or of \<open>addOrder\<close>, goes to the \<open>catch\<close> block. \<open>finally\<close>
  sets \<open>isSubmitting\<close> back to false on every path behind the entry guard.
\<close>

definition onSubmit ::
  "MenuItem list \<Rightarrow> Outcomes \<Rightarrow> PageState \<Rightarrow> OrderFormValues \<Rightarrow> SubmitResult"
where
  "onSubmit menuItems oc st data =
     (if isSubmitting st \<or> cart st = []
      then \<lparr> state = st, effects = [], shown = None \<rparr>
      else
        let details = formatOrderDetails (cart st) menuItems;
            params = templateParams details data;
            emailPromises = [SendEmail params, SendEmail (params\<lparr>to_email := BAKERY_EMAIL\<rparr>)]
        in if \<not> (customerSendOk oc \<and> bakerySendOk oc)
           then \<lparr> state = st\<lparr>isSubmitting := False\<rparr>,
                  effects = emailPromises, shown = Some SubmitError \<rparr>
           else (case addOrder (addOrderOk oc) (newOrder details data) (orders st) of
              None \<Rightarrow>
                \<lparr> state = st\<lparr>isSubmitting := False\<rparr>,
                  effects = emailPromises @ [AddOrder (newOrder details data)],
                  shown = Some SubmitError \<rparr>
            | Some orderLog \<Rightarrow>
                \<lparr> state = st\<lparr>cart := [], formValues := defaultValues,
                               isSubmitting := False, orders := orderLog\<rparr>,
                  effects = emailPromises @ [AddOrder (newOrder details data)],
                  shown = Some OrderReceived \<rparr>))"

text \<open>The form's \<open>onSubmit\<close> handler: \<open>onSubmit(form.getValues())\<close>.\<close>

definition formSubmitHandler :: "MenuItem list \<Rightarrow> Outcomes \<Rightarrow> PageState \<Rightarrow> SubmitResult" where
  "formSubmitHandler menuItems oc st = onSubmit menuItems oc st (formValues st)"

section \<open>Example data\<close>

text \<open>A small menu: an in-stock item with two units left, a made-to-order item, and an
  in-stock item that is sold out.\<close>

definition cookieItem :: MenuItem where
  "cookieItem = \<lparr> mi_id = ''cookie'', mi_name = ''Cookie'', mi_price = Amount 3,
                    category = ''cookies'', madeToOrder = False, stock = 2 \<rparr>"

definition cakeItem :: MenuItem where
  "cakeItem = \<lparr> mi_id = ''cake'', mi_name = ''Layer cake'', mi_price = Amount 25,
                  category = ''cakes'', madeToOrder = True, stock = 0 \<rparr>"

definition breadItem :: MenuItem where
  "breadItem = \<lparr> mi_id = ''bread'', mi_name = ''Sourdough'', mi_price = Amount 6,
                   category = ''breads'', madeToOrder = False, stock = 0 \<rparr>"

definition exampleMenu :: "MenuItem list" where
  "exampleMenu = [cookieItem, cakeItem, breadItem]"

text \<open>Cart lines: one cookie, one cake, and a line whose item has left the menu.\<close>

definition cookieLine :: CartItem where
  "cookieLine = \<lparr> ci_id = ''cookie'', ci_name = ''Cookie'', ci_price = Amount 3, quantity = 1 \<rparr>"

definition cakeLine :: CartItem where
  "cakeLine = \<lparr> ci_id = ''cake'', ci_name = ''Layer cake'', ci_price = Amount 25, quantity = 1 \<rparr>"

definition retiredLine :: CartItem where
  "retiredLine = \<lparr> ci_id = ''scone'', ci_name = ''Scone'', ci_price = Amount 4, quantity = 2 \<rparr>"

text \<open>A form filled in for an in-stock order, and the same form with the name left empty.\<close>

definition filledForm :: OrderFormValues where
  "filledForm = \<lparr> fv_name = ''Ann'', fv_email = ''ann@example.com'', fv_phone = ''555-123-4567'',
                    inStockPickupDate = Some 20760, inStockPickupTime = Some ''12:00 PM'',
                    madeToOrderPickupDate = None, madeToOrderPickupTime = None,
                    specialInstructions = Some [] \<rparr>"

definition namelessForm :: OrderFormValues where
  "namelessForm = filledForm\<lparr>fv_name := []\<rparr>"

definition filledPage :: PageState where
  "filledPage = \<lparr> cart = [cookieLine], formValues = filledForm,
                    isSubmitting = False, orders = [] \<rparr>"

definition namelessPage :: PageState where
  "namelessPage = filledPage\<lparr>formValues := namelessForm\<rparr>"

definition allSucceed :: Outcomes where
  "allSucceed = \<lparr> customerSendOk = True, bakerySendOk = True, addOrderOk = True \<rparr>"

definition bakerySendFails :: Outcomes where
  "bakerySendFails = \<lparr> customerSendOk = True, bakerySendOk = False, addOrderOk = True \<rparr>"

definition logWriteFails :: Outcomes where
  "logWriteFails = \<lparr> customerSendOk = True, bakerySendOk = True, addOrderOk = False \<rparr>"

text \<open>Moments of the week of 2026-11-02 (day 20759, a Monday): Monday 09:00,
  Wednesday 17:00, Wednesday 18:00 and Thursday 10:00.\<close>

definition mondayMorning :: Clock where
  "mondayMorning = \<lparr> nowDate = 20759, nowHours = 9 \<rparr>"

definition wednesdayBeforeCutoff :: Clock where
  "wednesdayBeforeCutoff = \<lparr> nowDate = 20761, nowHours = 17 \<rparr>"

definition wednesdayAtCutoff :: Clock where
  "wednesdayAtCutoff = \<lparr> nowDate = 20761, nowHours = 18 \<rparr>"

definition thursdayMorning :: Clock where
  "thursdayMorning = \<lparr> nowDate = 20762, nowHours = 10 \<rparr>"

section \<open>Cart total and partition\<close>






lemmas example_defs =
  cookieItem_def cakeItem_def breadItem_def exampleMenu_def
  cookieLine_def cakeLine_def retiredLine_def

lemmas partition_defs =
  formatOrderDetails_def isInStockLine_def isMadeToOrderLine_def findMenuItem_def lineTotal_def


section \<open>Changing a quantity\<close>

text \<open>Every rendered line is a cart line whose id has a menu item, so the buttons never
  reach the \<open>TypeError\<close> of \<open>updateQuantity\<close>.\<close>

lemma rendered_line_has_menu_item:
  "item \<in> set (renderedLines xs menuItems) \<Longrightarrow>
     \<exists>mi \<in> set menuItems. mi_id mi = ci_id item \<and> findMenuItem menuItems (ci_id item) = Some mi"
  by (auto simp: renderedLines_def formatOrderDetails_def isInStockLine_def isMadeToOrderLine_def
        findMenuItem_def find_Some_iff split: option.splits)

lemma rendered_line_in_cart: "item \<in> set (renderedLines xs menuItems) \<Longrightarrow> item \<in> set xs"
  by (auto simp: renderedLines_def formatOrderDetails_def)

lemma rendered_line_never_throws:
  "item \<in> set (renderedLines xs menuItems) \<Longrightarrow>
     updateQuantity menuItems xs (ci_id item) q \<noteq> Inl TypeError"
  by (auto simp: updateQuantity_def dest!: rendered_line_has_menu_item split: if_splits)

text \<open>
  C8. For every id, \<open>updateQuantity(id, q)\<close> with \<open>q < 1\<close> leaves the cart that
  \<open>removeFromCart(id)\<close> leaves. For the id of a line the page renders and \<open>q \<ge> 1\<close>:
  the menu item of that id exists; if it is not made to order and \<open>q\<close> is above its
  stock, the cart stays as it is (and the stock notice is shown); otherwise the quantity of
  the line with that id becomes \<open>q\<close> and every other line stays as it is.
\<close>

theorem updateQuantity_cases:
  "(q < 1 \<longrightarrow> updateQuantity menuItems xs i q = Inr (removeFromCart xs i, None))
   \<and> (item \<in> set (renderedLines xs menuItems) \<and> 1 \<le> q \<longrightarrow>
        item \<in> set xs
        \<and> (\<exists>mi \<in> set menuItems. mi_id mi = ci_id item
              \<and> findMenuItem menuItems (ci_id item) = Some mi
              \<and> (if \<not> madeToOrder mi \<and> stock mi < q
                  then updateQuantity menuItems xs (ci_id item) q = Inr (xs, Some StockLimitReached)
                  else \<exists>ys. updateQuantity menuItems xs (ci_id item) q = Inr (ys, None)
                         \<and> length ys = length xs
                         \<and> (\<forall>k < length xs.
                               ys ! k = (if ci_id (xs ! k) = ci_id item
                                         then (xs ! k)\<lparr>quantity := q\<rparr> else xs ! k)))))"
proof (intro conjI impI)
  assume "q < 1"
  then show "updateQuantity menuItems xs i q = Inr (removeFromCart xs i, None)"
    by (simp add: updateQuantity_def)
next
  assume a: "item \<in> set (renderedLines xs menuItems) \<and> 1 \<le> q"
  then show "item \<in> set xs" by (auto intro: rendered_line_in_cart)
next
  assume a: "item \<in> set (renderedLines xs menuItems) \<and> 1 \<le> q"
  then obtain mi where mi: "mi \<in> set menuItems" "mi_id mi = ci_id item"
      "findMenuItem menuItems (ci_id item) = Some mi"
    using rendered_line_has_menu_item by blast
  have "if \<not> madeToOrder mi \<and> stock mi < q
        then updateQuantity menuItems xs (ci_id item) q = Inr (xs, Some StockLimitReached)
        else \<exists>ys. updateQuantity menuItems xs (ci_id item) q = Inr (ys, None)
               \<and> length ys = length xs
               \<and> (\<forall>k < length xs.
                     ys ! k = (if ci_id (xs ! k) = ci_id item
                               then (xs ! k)\<lparr>quantity := q\<rparr> else xs ! k))"
    using a mi(3) by (auto simp: updateQuantity_def)
  with mi show "\<exists>mi \<in> set menuItems. mi_id mi = ci_id item
              \<and> findMenuItem menuItems (ci_id item) = Some mi
              \<and> (if \<not> madeToOrder mi \<and> stock mi < q
                  then updateQuantity menuItems xs (ci_id item) q = Inr (xs, Some StockLimitReached)
                  else \<exists>ys. updateQuantity menuItems xs (ci_id item) q = Inr (ys, None)
                         \<and> length ys = length xs
                         \<and> (\<forall>k < length xs.
                               ys ! k = (if ci_id (xs ! k) = ci_id item
                                         then (xs ! k)\<lparr>quantity := q\<rparr> else xs ! k)))"
    by blast
qed

theorem updateQuantity_cases_witness:
  "renderedLines [cookieLine, retiredLine, cakeLine] exampleMenu = [cookieLine, cakeLine]
   \<and> updateQuantity exampleMenu [cookieLine, retiredLine, cakeLine] (ci_id cookieLine) 0
      = Inr (removeFromCart [cookieLine, retiredLine, cakeLine] (ci_id cookieLine), None)
   \<and> removeFromCart [cookieLine, retiredLine, cakeLine] (ci_id cookieLine) = [retiredLine, cakeLine]
   \<and> findMenuItem exampleMenu (ci_id cookieLine) = Some cookieItem
   \<and> \<not> madeToOrder cookieItem \<and> stock cookieItem = 2
   \<and> updateQuantity exampleMenu [cookieLine, retiredLine, cakeLine] (ci_id cookieLine) 3
      = Inr ([cookieLine, retiredLine, cakeLine], Some StockLimitReached)
   \<and> updateQuantity exampleMenu [cookieLine, retiredLine, cakeLine] (ci_id cookieLine) 2
      = Inr ([cookieLine\<lparr>quantity := 2\<rparr>, retiredLine, cakeLine], None)
   \<and> updateQuantity exampleMenu [cookieLine, retiredLine, cakeLine] (ci_id cakeLine) 7
      = Inr ([cookieLine, retiredLine, cakeLine\<lparr>quantity := 7\<rparr>], None)"
  using updateQuantity_cases [of 0 exampleMenu "[cookieLine, retiredLine, cakeLine]" "ci_id cookieLine" cookieLine]
        updateQuantity_cases [of 3 exampleMenu "[cookieLine, retiredLine, cakeLine]" "ci_id cookieLine" cookieLine]
        updateQuantity_cases [of 2 exampleMenu "[cookieLine, retiredLine, cakeLine]" "ci_id cookieLine" cookieLine]
        updateQuantity_cases [of 7 exampleMenu "[cookieLine, retiredLine, cakeLine]" "ci_id cakeLine" cakeLine]
  by (simp add: example_defs partition_defs renderedLines_def updateQuantity_def removeFromCart_def)

section \<open>Submission: entry guard and failure handling\<close>

text \<open>
  C9. With an empty cart, \<open>onSubmit\<close> returns at its entry guard: no notification is
  sent, the order log is not written, and the state of the page stays as it is.
\<close>

theorem empty_cart_rejected:
  "cart st = [] \<Longrightarrow>
     onSubmit menuItems oc st data = \<lparr> state = st, effects = [], shown = None \<rparr>
   \<and> formSubmitHandler menuItems oc st = \<lparr> state = st, effects = [], shown = None \<rparr>"
  by (simp add: onSubmit_def formSubmitHandler_def)

theorem empty_cart_rejected_witness:
  "cart (filledPage\<lparr>cart := []\<rparr>) = []
   \<and> effects (onSubmit exampleMenu allSucceed (filledPage\<lparr>cart := []\<rparr>) filledForm) = []
   \<and> state (onSubmit exampleMenu allSucceed (filledPage\<lparr>cart := []\<rparr>) filledForm)
       = filledPage\<lparr>cart := []\<rparr>
   \<and> effects (formSubmitHandler exampleMenu allSucceed (filledPage\<lparr>cart := []\<rparr>)) = []"
  using empty_cart_rejected [of "filledPage\<lparr>cart := []\<rparr>" exampleMenu allSucceed filledForm]
  by (simp add: filledPage_def)

text \<open>
  C3. When a notification send or the order-log write fails, the page state (cart, form,
  order list) after \<open>onSubmit\<close> is the state before it and no success is reported; when
  a send fails the order log is not even called. Success is reported only when both sends
  and the log write succeed, and then the cart is emptied, the form is reset to its
  default values and the order is in the list.
\<close>

theorem submit_all_or_nothing:
  "(\<not> (customerSendOk oc \<and> bakerySendOk oc \<and> addOrderOk oc) \<longrightarrow>
       state (onSubmit menuItems oc st data) = st
     \<and> shown (onSubmit menuItems oc st data) \<noteq> Some OrderReceived)
   \<and> (\<not> (customerSendOk oc \<and> bakerySendOk oc) \<longrightarrow>
       (\<forall>order. AddOrder order \<notin> set (effects (onSubmit menuItems oc st data))))
   \<and> (shown (onSubmit menuItems oc st data) = Some OrderReceived \<longrightarrow>
       customerSendOk oc \<and> bakerySendOk oc \<and> addOrderOk oc)
   \<and> (customerSendOk oc \<and> bakerySendOk oc \<and> addOrderOk oc
        \<and> \<not> isSubmitting st \<and> cart st \<noteq> [] \<longrightarrow>
       shown (onSubmit menuItems oc st data) = Some OrderReceived
     \<and> state (onSubmit menuItems oc st data)
         = st\<lparr>cart := [], formValues := defaultValues,
               orders := orders st @ [newOrder (formatOrderDetails (cart st) menuItems) data]\<rparr>)"
  by (auto simp: onSubmit_def addOrder_def Let_def split: option.splits)

theorem submit_all_or_nothing_witness:
  "\<not> bakerySendOk bakerySendFails
   \<and> state (onSubmit exampleMenu bakerySendFails filledPage filledForm) = filledPage
   \<and> shown (onSubmit exampleMenu bakerySendFails filledPage filledForm) = Some SubmitError
   \<and> length (effects (onSubmit exampleMenu bakerySendFails filledPage filledForm)) = 2
   \<and> \<not> addOrderOk logWriteFails
   \<and> state (onSubmit exampleMenu logWriteFails filledPage filledForm) = filledPage
   \<and> shown (onSubmit exampleMenu logWriteFails filledPage filledForm) = Some SubmitError
   \<and> shown (onSubmit exampleMenu allSucceed filledPage filledForm) = Some OrderReceived
   \<and> cart (state (onSubmit exampleMenu allSucceed filledPage filledForm)) = []
   \<and> formValues (state (onSubmit exampleMenu allSucceed filledPage filledForm)) = defaultValues
   \<and> length (orders (state (onSubmit exampleMenu allSucceed filledPage filledForm))) = 1"
  using submit_all_or_nothing [of bakerySendFails exampleMenu filledPage filledForm]
        submit_all_or_nothing [of logWriteFails exampleMenu filledPage filledForm]
        submit_all_or_nothing [of allSucceed exampleMenu filledPage filledForm]
  by (simp add: onSubmit_def addOrder_def Let_def filledPage_def
        bakerySendFails_def logWriteFails_def allSucceed_def)

section \<open>The stock bound\<close>

text \<open>
  \<open>addToCart\<close>, \<open>removeFromCart\<close> and \<open>updateQuantity\<close> keep the stock bound, together
  with two facts they rely on: no two cart lines share an id, and every quantity is at
  least 1. The menu must not list an id twice.
\<close>

lemma cartQuantity_Nil [simp]: "cartQuantity [] i = 0"
  by (simp add: cartQuantity_def)

lemma cartQuantity_Cons [simp]:
  "cartQuantity (x # xs) i = (if ci_id x = i then quantity x else 0) + cartQuantity xs i"
  by (simp add: cartQuantity_def)

lemma cartQuantity_append [simp]:
  "cartQuantity (xs @ ys) i = cartQuantity xs i + cartQuantity ys i"
  by (simp add: cartQuantity_def)

lemma cartQuantity_absent: "i \<notin> ci_id ` set xs \<Longrightarrow> cartQuantity xs i = 0"
  by (induction xs) auto

lemma cartQuantity_nonneg: "list_all (\<lambda>item. 1 \<le> quantity item) xs \<Longrightarrow> 0 \<le> cartQuantity xs i"
  by (induction xs) auto

lemma cartQuantity_remove:
  "cartQuantity (removeFromCart xs i) j = (if j = i then 0 else cartQuantity xs j)"
  by (induction xs) (auto simp: removeFromCart_def)

lemma cartQuantity_find:
  "distinct (map ci_id xs) \<Longrightarrow> find (\<lambda>c. ci_id c = i) xs = Some e \<Longrightarrow> cartQuantity xs i = quantity e"
  by (induction xs) (auto simp: cartQuantity_absent split: if_splits)

lemma find_None_absent: "find (\<lambda>c. ci_id c = i) xs = None \<Longrightarrow> i \<notin> ci_id ` set xs"
  by (auto simp: find_None_iff)

lemma cartQuantity_set_other:
  "j \<noteq> i \<Longrightarrow>
   cartQuantity (map (\<lambda>c. if ci_id c = i then c\<lparr>quantity := g c\<rparr> else c) xs) j = cartQuantity xs j"
  by (induction xs) auto

lemma map_set_absent:
  "i \<notin> ci_id ` set xs \<Longrightarrow>
   map (\<lambda>c. if ci_id c = i then c\<lparr>quantity := g c\<rparr> else c) xs = xs"
  by (induction xs) auto

lemma cartQuantity_set_same:
  "distinct (map ci_id xs) \<Longrightarrow> find (\<lambda>c. ci_id c = i) xs = Some e \<Longrightarrow>
   cartQuantity (map (\<lambda>c. if ci_id c = i then c\<lparr>quantity := g c\<rparr> else c) xs) i = g e"
proof (induction xs)
  case Nil then show ?case by simp
next
  case (Cons x xs)
  show ?case
  proof (cases "ci_id x = i")
    case True
    with Cons.prems have "i \<notin> ci_id ` set xs" "e = x" by auto
    then have "map (\<lambda>c. if ci_id c = i then c\<lparr>quantity := g c\<rparr> else c) xs = xs"
      by (simp add: map_set_absent)
    with True \<open>e = x\<close> \<open>i \<notin> ci_id ` set xs\<close> show ?thesis
      by (simp add: cartQuantity_absent)
  next
    case False
    with Cons show ?thesis by auto
  qed
qed

lemma map_ids_same:
  "map ci_id (map (\<lambda>c. if ci_id c = i then c\<lparr>quantity := g c\<rparr> else c) xs) = map ci_id xs"
  by (induction xs) auto

lemma removeFromCart_preserves:
  assumes "cartInvariant menuItems xs"
  shows "cartInvariant menuItems (removeFromCart xs i)"
proof -
  from assms have d: "distinct (map ci_id xs)" and q: "list_all (\<lambda>item. 1 \<le> quantity item) xs"
    and s: "stockInvariant menuItems xs"
    by (simp_all add: cartInvariant_def)
  have "distinct (map ci_id (removeFromCart xs i))"
    using d by (simp add: removeFromCart_def distinct_map_filter)
  moreover have "list_all (\<lambda>item. 1 \<le> quantity item) (removeFromCart xs i)"
    using q by (simp add: removeFromCart_def list_all_iff)
  moreover have "stockInvariant menuItems (removeFromCart xs i)"
    unfolding stockInvariant_def list_all_iff
  proof
    fix mi assume "mi \<in> set menuItems"
    with s have "madeToOrder mi \<or> cartQuantity xs (mi_id mi) \<le> stock mi"
      by (simp add: stockInvariant_def list_all_iff)
    moreover have "0 \<le> cartQuantity xs (mi_id mi)" using q by (rule cartQuantity_nonneg)
    ultimately show "madeToOrder mi \<or> cartQuantity (removeFromCart xs i) (mi_id mi) \<le> stock mi"
      by (auto simp: cartQuantity_remove)
  qed
  ultimately show ?thesis by (simp add: cartInvariant_def)
qed

lemma distinct_menu_same:
  "distinct (map mi_id menuItems) \<Longrightarrow> a \<in> set menuItems \<Longrightarrow> b \<in> set menuItems \<Longrightarrow>
   mi_id a = mi_id b \<Longrightarrow> a = b"
  by (meson distinct_map inj_onD)

lemma addToCart_preserves:
  assumes m: "distinct (map mi_id menuItems)" and i: "item \<in> set menuItems"
    and inv: "cartInvariant menuItems xs"
  shows "cartInvariant menuItems (fst (addToCart xs item))"
proof -
  from inv have d: "distinct (map ci_id xs)" and q: "list_all (\<lambda>item. 1 \<le> quantity item) xs"
    and s: "stockInvariant menuItems xs"
    by (simp_all add: cartInvariant_def)
  show ?thesis
  proof (cases "find (\<lambda>c. ci_id c = mi_id item) xs")
    case None
    then have absent: "mi_id item \<notin> ci_id ` set xs" by (rule find_None_absent)
    show ?thesis
    proof (cases "\<not> madeToOrder item \<and> stock item \<le> 0")
      case True
      then show ?thesis using inv by (simp add: addToCart_def)
    next
      case False
      let ?new = "\<lparr> ci_id = mi_id item, ci_name = mi_name item, ci_price = mi_price item, quantity = 1 \<rparr>"
      from False None have r: "fst (addToCart xs item) = xs @ [?new]"
        by (auto simp: addToCart_def)
      have "stockInvariant menuItems (xs @ [?new])"
        unfolding stockInvariant_def list_all_iff
      proof
        fix mi assume mi: "mi \<in> set menuItems"
        with s have old: "madeToOrder mi \<or> cartQuantity xs (mi_id mi) \<le> stock mi"
          by (simp add: stockInvariant_def list_all_iff)
        show "madeToOrder mi \<or> cartQuantity (xs @ [?new]) (mi_id mi) \<le> stock mi"
        proof (cases "mi_id mi = mi_id item")
          case True
          with m i mi have "mi = item" by (rule_tac distinct_menu_same)
          with False absent show ?thesis by (auto simp: cartQuantity_absent)
        next
          case False
          with old show ?thesis by auto
        qed
      qed
      with d q absent show ?thesis by (simp add: r cartInvariant_def)
    qed
  next
    case (Some e)
    show ?thesis
    proof (cases "(\<not> madeToOrder item \<and> stock item \<le> 0) \<or> (\<not> madeToOrder item \<and> quantity e \<ge> stock item)")
      case True
      then show ?thesis using inv Some by (auto simp: addToCart_def)
    next
      case False
      let ?ys = "map (\<lambda>c. if ci_id c = mi_id item then c\<lparr>quantity := quantity c + 1\<rparr> else c) xs"
      from False Some have r: "fst (addToCart xs item) = ?ys"
        by (auto simp: addToCart_def)
      have "distinct (map ci_id ?ys)" using d by (simp only: map_ids_same)
      moreover have "list_all (\<lambda>item. 1 \<le> quantity item) ?ys"
        using q by (auto simp: list_all_iff)
      moreover have "stockInvariant menuItems ?ys"
        unfolding stockInvariant_def list_all_iff
      proof
        fix mi assume mi: "mi \<in> set menuItems"
        with s have old: "madeToOrder mi \<or> cartQuantity xs (mi_id mi) \<le> stock mi"
          by (simp add: stockInvariant_def list_all_iff)
        show "madeToOrder mi \<or> cartQuantity ?ys (mi_id mi) \<le> stock mi"
        proof (cases "mi_id mi = mi_id item")
          case True
          with m i mi have "mi = item" by (rule_tac distinct_menu_same)
          moreover have "cartQuantity ?ys (mi_id item) = quantity e + 1"
            using d Some by (rule cartQuantity_set_same)
          ultimately show ?thesis using False by auto
        next
          case False
          with old show ?thesis by (simp add: cartQuantity_set_other)
        qed
      qed
      ultimately show ?thesis by (simp add: r cartInvariant_def)
    qed
  qed
qed

lemma findMenuItem_Some:
  "findMenuItem menuItems i = Some mi \<Longrightarrow> mi \<in> set menuItems \<and> mi_id mi = i"
  by (auto simp: findMenuItem_def find_Some_iff)

lemma updateQuantity_preserves:
  assumes m: "distinct (map mi_id menuItems)"
    and inv: "cartInvariant menuItems xs"
    and r: "updateQuantity menuItems xs i q = Inr (ys, t)"
  shows "cartInvariant menuItems ys"
proof (cases "q < 1")
  case True
  with r have "ys = removeFromCart xs i" by (simp add: updateQuantity_def)
  with inv show ?thesis by (simp add: removeFromCart_preserves)
next
  case False
  from inv have d: "distinct (map ci_id xs)" and q: "list_all (\<lambda>item. 1 \<le> quantity item) xs"
    and s: "stockInvariant menuItems xs"
    by (simp_all add: cartInvariant_def)
  from False r obtain menuItem where f: "findMenuItem menuItems i = Some menuItem"
    by (auto simp: updateQuantity_def split: option.splits)
  then have mem: "menuItem \<in> set menuItems" "mi_id menuItem = i"
    by (auto dest: findMenuItem_Some)
  show ?thesis
  proof (cases "\<not> madeToOrder menuItem \<and> q > stock menuItem")
    case True
    with False f r have "ys = xs" by (simp add: updateQuantity_def)
    with inv show ?thesis by simp
  next
    case ok: False
    let ?ys = "map (\<lambda>c. if ci_id c = i then c\<lparr>quantity := q\<rparr> else c) xs"
    from ok False f r have ys: "ys = ?ys" by (auto simp: updateQuantity_def)
    have "distinct (map ci_id ?ys)" using d by (simp only: map_ids_same)
    moreover have "list_all (\<lambda>item. 1 \<le> quantity item) ?ys"
      using q False by (auto simp: list_all_iff)
    moreover have "stockInvariant menuItems ?ys"
      unfolding stockInvariant_def list_all_iff
    proof
      fix mi assume mi: "mi \<in> set menuItems"
      with s have old: "madeToOrder mi \<or> cartQuantity xs (mi_id mi) \<le> stock mi"
        by (simp add: stockInvariant_def list_all_iff)
      show "madeToOrder mi \<or> cartQuantity ?ys (mi_id mi) \<le> stock mi"
      proof (cases "mi_id mi = i")
        case same: True
        with m mem mi have eq: "mi = menuItem" by (auto intro: distinct_menu_same)
        show ?thesis
        proof (cases "find (\<lambda>c. ci_id c = i) xs")
          case None
          then have "i \<notin> ci_id ` set xs" by (rule find_None_absent)
          then have "?ys = xs" by (rule map_set_absent)
          with old show ?thesis by simp
        next
          case (Some e)
          with d have "cartQuantity ?ys i = q" by (rule cartQuantity_set_same)
          with ok eq same show ?thesis by auto
        qed
      next
        case False
        with old show ?thesis by (simp add: cartQuantity_set_other)
      qed
    qed
    ultimately show ?thesis by (simp add: ys cartInvariant_def)
  qed
qed

text \<open>
  C2. The stock bound says that for every menu item that is not made to order, the
  quantities of the cart lines with its id sum to at most its stock. The effect that adds
  the item named in the URL does not keep it: for the sold-out bread (stock 0) and an empty
  cart it adds a line of quantity 1, where \<open>addToCart\<close> refuses with "Out of stock".
\<close>

theorem url_item_skips_stock_check:
  "cartInvariant exampleMenu []
   \<and> urlItemEffect exampleMenu [] (Some ''bread'')
       = [\<lparr> ci_id = ''bread'', ci_name = ''Sourdough'', ci_price = Amount 6, quantity = 1 \<rparr>]
   \<and> cartQuantity (urlItemEffect exampleMenu [] (Some ''bread'')) ''bread'' = 1
   \<and> stock breadItem = 0 \<and> \<not> madeToOrder breadItem
   \<and> \<not> stockInvariant exampleMenu (urlItemEffect exampleMenu [] (Some ''bread''))
   \<and> addToCart [] breadItem = ([], OutOfStock)"
  by (simp add: cartInvariant_def stockInvariant_def urlItemEffect_def findMenuItem_def addToCart_def
        example_defs)

section \<open>Validation and submission\<close>

text \<open>
  C1. The validation schema does not stand between the form and the submission: the
  form's handler passes \<open>form.getValues()\<close> straight to \<open>onSubmit\<close>, which checks only
  the submitting flag and the empty cart. A form with an empty name fails the schema
  (whatever the email check says), and still both notifications are sent and the order is
  written to the log.
\<close>

theorem invalid_form_is_submitted:
  "\<not> createValidationSchema emailOk (cart namelessPage) exampleMenu (formValues namelessPage)
   \<and> effects (formSubmitHandler exampleMenu allSucceed namelessPage)
       = [SendEmail (templateParams (formatOrderDetails [cookieLine] exampleMenu) namelessForm),
          SendEmail ((templateParams (formatOrderDetails [cookieLine] exampleMenu) namelessForm)
                       \<lparr>to_email := BAKERY_EMAIL\<rparr>),
          AddOrder (newOrder (formatOrderDetails [cookieLine] exampleMenu) namelessForm)]
   \<and> shown (formSubmitHandler exampleMenu allSucceed namelessPage) = Some OrderReceived
   \<and> orders (state (formSubmitHandler exampleMenu allSucceed namelessPage))
       = [newOrder (formatOrderDetails [cookieLine] exampleMenu) namelessForm]
   \<and> customerName (newOrder (formatOrderDetails [cookieLine] exampleMenu) namelessForm) = []"
  by (simp add: createValidationSchema_def orderFormSchema_def formSubmitHandler_def onSubmit_def
        addOrder_def Let_def namelessPage_def filledPage_def namelessForm_def filledForm_def
        allSucceed_def newOrder_def)

section \<open>Eligible pickup dates\<close>

lemma getDay_range: "0 \<le> getDay d \<and> getDay d \<le> 6"
  by (simp add: getDay_def)

lemma getDay_add7: "getDay (d + 7) = getDay d"
  by (simp add: getDay_def) presburger

text \<open>The upcoming Saturday is the first Saturday on or after today.\<close>

lemma upcomingSaturday:
  "getDay (madeToOrderFromDate now) = 6
   \<and> nowDate now \<le> madeToOrderFromDate now
   \<and> madeToOrderFromDate now < nowDate now + 7"
  unfolding madeToOrderFromDate_def getDay_def Let_def by presburger

lemma upcomingSaturday_today:
  "getDay (nowDate now) = 6 \<Longrightarrow> madeToOrderFromDate now = nowDate now"
  unfolding madeToOrderFromDate_def getDay_def Let_def by presburger

text \<open>
  With made-to-order items in the cart, \<open>getAvailablePickupDates\<close> accepts the Saturdays
  from the upcoming one on, or from the one a week later once Wednesday 18:00 has passed.
\<close>

lemma getAvailablePickupDates_madeToOrder:
  "getAvailablePickupDates True now date =
     (getDay date = 6
      \<and> date \<ge> (if getDay (nowDate now) > 3 \<or> (getDay (nowDate now) = 3 \<and> nowHours now \<ge> 18)
                  then madeToOrderFromDate now + 7 else madeToOrderFromDate now))"
  by (auto simp: getAvailablePickupDates_def madeToOrderFromDate_def Let_def)

text \<open>
  C5 (amended). For in-stock items a date can be picked if and only if it is a weekday
  (Monday to Friday) and not before tomorrow: tomorrow itself is eligible. This holds of
  \<open>getAvailablePickupDates\<close> without made-to-order items and of the in-stock calendar.
\<close>

theorem inStock_pickup_dates:
  "getAvailablePickupDates False now date
     = (1 \<le> getDay date \<and> getDay date \<le> 5 \<and> nowDate now + 1 \<le> date)
   \<and> inStockSelectable now date
     = (1 \<le> getDay date \<and> getDay date \<le> 5 \<and> nowDate now + 1 \<le> date)"
  using getDay_range [of date]
  by (auto simp: getAvailablePickupDates_def inStockSelectable_def calendarSelectable_def
        inStockFromDate_def inStockDisabled_def Let_def)

text \<open>C5 as stated asks for a date strictly after tomorrow. On Monday 2026-11-02,
  Tuesday 2026-11-03 is eligible, and it is tomorrow.\<close>

theorem tomorrow_is_eligible_counterexample:
  "\<not> (getAvailablePickupDates False mondayMorning 20760
        = (1 \<le> getDay 20760 \<and> getDay 20760 \<le> 5 \<and> nowDate mondayMorning + 1 < 20760))
   \<and> \<not> (inStockSelectable mondayMorning 20760
        = (1 \<le> getDay 20760 \<and> getDay 20760 \<le> 5 \<and> nowDate mondayMorning + 1 < 20760))"
  by (simp add: getAvailablePickupDates_def inStockSelectable_def calendarSelectable_def
        inStockFromDate_def inStockDisabled_def Let_def getDay_def mondayMorning_def)

text \<open>The made-to-order calendar offers every Saturday from the upcoming one on.\<close>

lemma madeToOrderSelectable_iff:
  "madeToOrderSelectable now date = (getDay date = 6 \<and> madeToOrderFromDate now \<le> date)"
  by (auto simp: madeToOrderSelectable_def calendarSelectable_def madeToOrderDisabled_def)

text \<open>
  C4. The made-to-order calendar starts at the upcoming Saturday and disables every other
  weekday, whatever the hour: on Thursday 2026-11-05 at 10:00 it offers Saturday
  2026-11-07, which \<open>getAvailablePickupDates\<close> (never called by the page) rejects in
  favour of 2026-11-14.
\<close>

theorem madeToOrder_calendar_skips_cutoff:
  "getDay (nowDate thursdayMorning) = 4
   \<and> getDay 20764 = 6
   \<and> madeToOrderFromDate thursdayMorning = 20764
   \<and> madeToOrderSelectable thursdayMorning 20764
   \<and> \<not> getAvailablePickupDates True thursdayMorning 20764
   \<and> madeToOrderFromDate thursdayMorning + 7 = 20771
   \<and> getAvailablePickupDates True thursdayMorning 20771"
  by (simp add: getAvailablePickupDates_def madeToOrderSelectable_def calendarSelectable_def
        madeToOrderFromDate_def madeToOrderDisabled_def Let_def getDay_def thursdayMorning_def)


section \<open>Offered pickup times\<close>

lemma PICKUP_TIMES_grid: "halfHourGrid (9 * 60) (17 * 60) = PICKUP_TIMES"
  by (simp add: halfHourGrid_def PICKUP_TIMES_def formatTime12_def showHour_def showDigit_def Let_def upt_rec)

lemma getAvailablePickupTimes_madeToOrder: "getAvailablePickupTimes True = halfHourGrid (9 * 60) (18 * 60)"
  by (simp add: halfHourGrid_def getAvailablePickupTimes_def formatTime12_def showHour_def showDigit_def Let_def upt_rec)

lemma getAvailablePickupTimes_inStock: "getAvailablePickupTimes False = halfHourGrid (12 * 60) (18 * 60)"
  by (simp add: halfHourGrid_def getAvailablePickupTimes_def formatTime12_def showHour_def showDigit_def Let_def upt_rec)

text \<open>
  C6 (amended). Both pickup-time selectors offer \<open>PICKUP_TIMES\<close>: the half-hour grid
  from 9:00 AM to 5:00 PM, both ends included.
\<close>

theorem pickup_time_options:
  "inStockPickupTimeOptions = halfHourGrid (9 * 60) (17 * 60)
   \<and> madeToOrderPickupTimeOptions = halfHourGrid (9 * 60) (17 * 60)"
  by (simp only: inStockPickupTimeOptions_def madeToOrderPickupTimeOptions_def PICKUP_TIMES_grid)

text \<open>C6 as stated: the in-stock selector does not offer the grid from 12:00 PM to
  6:00 PM, nor the made-to-order selector the grid from 9:00 AM to 6:00 PM; \<open>6:00 PM\<close>
  is in neither selector.\<close>

theorem pickup_time_options_counterexample:
  "set inStockPickupTimeOptions \<noteq> set (halfHourGrid (12 * 60) (18 * 60))
   \<and> set madeToOrderPickupTimeOptions \<noteq> set (halfHourGrid (9 * 60) (18 * 60))"
proof -
  have "''6:00 PM'' \<notin> set PICKUP_TIMES" by (simp add: PICKUP_TIMES_def)
  moreover have "''6:00 PM'' \<in> set (halfHourGrid (12 * 60) (18 * 60))"
    by (subst getAvailablePickupTimes_inStock [symmetric]) (simp add: getAvailablePickupTimes_def)
  moreover have "''6:00 PM'' \<in> set (halfHourGrid (9 * 60) (18 * 60))"
    by (subst getAvailablePickupTimes_madeToOrder [symmetric]) (simp add: getAvailablePickupTimes_def)
  ultimately show ?thesis
    unfolding inStockPickupTimeOptions_def madeToOrderPickupTimeOptions_def by metis
qed

end
